theory Spec2Isabelle
  imports Main "HOL-Library.Word"
begin

section \<open>Python values used by Output.py\<close>

text \<open>
  A Python \<open>str\<close> is a sequence of Unicode code points, a \<open>bytes\<close> value a sequence of
  octets.  String literals of the source are written \<open>lit ''...''\<close>.
\<close>

type_synonym codepoint = nat
type_synonym pystr = "codepoint list"
type_synonym byte = "8 word"

abbreviation lit :: "string \<Rightarrow> pystr" where
  "lit s \<equiv> map of_char s"

abbreviation blit :: "string \<Rightarrow> byte list" where
  "blit s \<equiv> map of_char s"

text \<open>
  The values that reach \<open>convert_to_price\<close>: the function tests its argument with
  \<open>isinstance(byte_data, bytes)\<close>, so the model keeps the dynamic type.
\<close>

datatype pyval = PNone | PInt int | PStr pystr | PBytes "byte list"

fun isinstance_bytes :: "pyval \<Rightarrow> bool" where
  "isinstance_bytes (PBytes _) = True"
| "isinstance_bytes _ = False"

text \<open>The exceptions that the modelled operations can raise.\<close>

datatype exn =
    UnicodeDecodeError
  | UnicodeEncodeError
  | IndexError
  | AttributeError
  | TypeError
  | KeyError pystr
  | EOFError
  | FileNotFoundError
  | IsADirectoryError
  | LibraryError pystr

definition NotAvailable :: pystr where
  "NotAvailable = lit ''Not Available''"

section \<open>String operations of the standard library\<close>

text \<open>\<open>str.isspace\<close> on one code point: the white space that \<open>str.strip()\<close> removes.\<close>

definition isspace :: "codepoint \<Rightarrow> bool" where
  "isspace c \<longleftrightarrow>
     (9 \<le> c \<and> c \<le> 13) \<or> (28 \<le> c \<and> c \<le> 32) \<or> c = 133 \<or> c = 160 \<or> c = 5760 \<or>
     (8192 \<le> c \<and> c \<le> 8202) \<or> c = 8232 \<or> c = 8233 \<or> c = 8239 \<or> c = 8287 \<or> c = 12288"

text \<open>\<open>s.strip()\<close>: white space removed at both ends.\<close>

definition strip :: "pystr \<Rightarrow> pystr" where
  "strip s = rev (dropWhile isspace (rev (dropWhile isspace s)))"

text \<open>\<open>s.strip(chars)\<close>: the code points of \<open>chars\<close> removed at both ends.\<close>

definition strip_chars :: "pystr \<Rightarrow> pystr \<Rightarrow> pystr" where
  "strip_chars chars s =
     rev (dropWhile (\<lambda>c. c \<in> set chars) (rev (dropWhile (\<lambda>c. c \<in> set chars) s)))"

text \<open>
  \<open>s.split(sep)\<close> for a separator of one code point (the source splits on \<open>":"\<close> and
  on \<open>"/"\<close>).  The result always has at least one segment.
\<close>

fun py_split :: "codepoint \<Rightarrow> pystr \<Rightarrow> pystr list" where
  "py_split sep [] = [[]]"
| "py_split sep (c # cs) =
     (if c = sep then [] # py_split sep cs
      else (case py_split sep cs of
              [] \<Rightarrow> [[c]]
            | seg # segs \<Rightarrow> (c # seg) # segs))"

text \<open>\<open>xs[i]\<close> on a list: a negative index counts from the end, out of range raises.\<close>

definition index :: "'a list \<Rightarrow> int \<Rightarrow> exn + 'a" where
  "index xs i =
     (if 0 \<le> i \<and> i < int (length xs) then Inr (xs ! nat i)
      else if i < 0 \<and> - int (length xs) \<le> i then Inr (xs ! nat (int (length xs) + i))
      else Inl IndexError)"

text \<open>\<open>s.replace(old, new)\<close> for \<open>old\<close> of one code point.\<close>

definition replace :: "codepoint \<Rightarrow> pystr \<Rightarrow> pystr \<Rightarrow> pystr" where
  "replace old new s = concat (map (\<lambda>c. if c = old then new else [c]) s)"

section \<open>The UTF-8 codec\<close>

definition is_cont :: "nat \<Rightarrow> bool" where
  "is_cont b \<longleftrightarrow> 128 \<le> b \<and> b \<le> 191"

text \<open>The second octet of a three-octet form: no overlong forms, no surrogates.\<close>

definition second3 :: "nat \<Rightarrow> nat \<Rightarrow> bool" where
  "second3 b c =
     (if b = 224 then 160 \<le> c \<and> c \<le> 191
      else if b = 237 then 128 \<le> c \<and> c \<le> 159
      else is_cont c)"

text \<open>The second octet of a four-octet form: no overlong forms, nothing above U+10FFFF.\<close>

definition second4 :: "nat \<Rightarrow> nat \<Rightarrow> bool" where
  "second4 b c =
     (if b = 240 then 144 \<le> c \<and> c \<le> 191
      else if b = 244 then 128 \<le> c \<and> c \<le> 143
      else is_cont c)"

text \<open>Strict decoding of a sequence of octets (given as numbers); \<open>None\<close> is a decoding error.\<close>

fun utf8_decode :: "nat list \<Rightarrow> pystr option" where
  "utf8_decode [] = Some []"
| "utf8_decode (b # bs) =
     (if b < 128 then map_option ((#) b) (utf8_decode bs)
      else if 194 \<le> b \<and> b \<le> 223 then
        (case bs of
           c1 # r \<Rightarrow>
             if is_cont c1
             then map_option ((#) ((b - 192) * 64 + (c1 - 128))) (utf8_decode r)
             else None
         | _ \<Rightarrow> None)
      else if 224 \<le> b \<and> b \<le> 239 then
        (case bs of
           c1 # c2 # r \<Rightarrow>
             if second3 b c1 \<and> is_cont c2
             then map_option ((#) ((b - 224) * 4096 + (c1 - 128) * 64 + (c2 - 128)))
                    (utf8_decode r)
             else None
         | _ \<Rightarrow> None)
      else if 240 \<le> b \<and> b \<le> 244 then
        (case bs of
           c1 # c2 # c3 # r \<Rightarrow>
             if second4 b c1 \<and> is_cont c2 \<and> is_cont c3
             then map_option
                    ((#) ((b - 240) * 262144 + (c1 - 128) * 4096 + (c2 - 128) * 64 + (c3 - 128)))
                    (utf8_decode r)
             else None
         | _ \<Rightarrow> None)
      else None)"

text \<open>\<open>byte_data.decode('utf-8')\<close>.\<close>

definition decode :: "byte list \<Rightarrow> exn + pystr" where
  "decode bs =
     (case utf8_decode (map unat bs) of
        None \<Rightarrow> Inl UnicodeDecodeError
      | Some s \<Rightarrow> Inr s)"

text \<open>The octets of one code point; surrogates and numbers above U+10FFFF have none.\<close>

definition utf8_encode_cp :: "codepoint \<Rightarrow> nat list option" where
  "utf8_encode_cp c =
     (if c < 128 then Some [c]
      else if c < 2048 then Some [192 + c div 64, 128 + c mod 64]
      else if c < 65536 then
        (if 55296 \<le> c \<and> c \<le> 57343 then None
         else Some [224 + c div 4096, 128 + (c div 64) mod 64, 128 + c mod 64])
      else if c < 1114112 then
        Some [240 + c div 262144, 128 + (c div 4096) mod 64, 128 + (c div 64) mod 64,
              128 + c mod 64]
      else None)"

fun utf8_encode :: "pystr \<Rightarrow> nat list option" where
  "utf8_encode [] = Some []"
| "utf8_encode (c # cs) =
     (case utf8_encode_cp c of
        None \<Rightarrow> None
      | Some bs \<Rightarrow> map_option ((@) bs) (utf8_encode cs))"

text \<open>\<open>s.encode('utf-8')\<close>.\<close>

definition encode :: "pystr \<Rightarrow> exn + byte list" where
  "encode s =
     (case utf8_encode s of
        None \<Rightarrow> Inl UnicodeEncodeError
      | Some bs \<Rightarrow> Inr (map of_nat bs))"

section \<open>convert_to_price\<close>

text \<open>
  The body of the \<open>try\<close> block of \<open>convert_to_price\<close>:
  decode, take the segment after the last colon, trim it, drop the first character and
  remove the commas.
\<close>

definition price_from_bytes :: "byte list \<Rightarrow> exn + pystr" where
  "price_from_bytes byte_data =
     (case decode byte_data of
        Inl e \<Rightarrow> Inl e
      | Inr text_data \<Rightarrow>
          (case index (py_split (of_char CHR '':'') text_data) (- 1) of
             Inl e \<Rightarrow> Inl e
           | Inr segment \<Rightarrow>
               (let price_part = strip segment;
                    price_without_currency = replace (of_char CHR '','') [] (drop 1 price_part)
                in Inr price_without_currency)))"

text \<open>
  \<open>convert_to_price\<close>: the handler catches \<open>UnicodeDecodeError\<close> and \<open>IndexError\<close> and
  falls through to the sentinel; any other exception would leave the function.
\<close>

definition convert_to_price :: "pyval \<Rightarrow> exn + pystr" where
  "convert_to_price byte_data =
     (case byte_data of
        PBytes bs \<Rightarrow>
          (case price_from_bytes bs of
             Inr price \<Rightarrow> Inr price
           | Inl e \<Rightarrow>
               if e = UnicodeDecodeError \<or> e = IndexError then Inr NotAvailable else Inl e)
      | _ \<Rightarrow> Inr NotAvailable)"

section \<open>The page extractor\<close>

text \<open>
  The parsed page.  BeautifulSoup is a library outside the repository, so the document is
  taken as what the source asks of it: \<open>soup.find(tag, {'class': cls})\<close> gives the first
  matching element or \<open>None\<close>, and an element has a \<open>.string\<close> (\<open>None\<close> unless the
  element has exactly one text child) and a \<open>.text\<close>.
\<close>

record element =
  el_string :: "pystr option"
  el_text :: pystr

type_synonym soup = "pystr \<Rightarrow> pystr \<Rightarrow> element option"

text \<open>The character class \<open>[A-Z0-9]\<close> of the pattern.\<close>

definition is_asin_char :: "codepoint \<Rightarrow> bool" where
  "is_asin_char c \<longleftrightarrow> (65 \<le> c \<and> c \<le> 90) \<or> (48 \<le> c \<and> c \<le> 57)"

text \<open>
  \<open>re.search(r'/dp/([A-Z0-9]+)', url)\<close> followed by \<open>group(1)\<close>: the leftmost position
  where \<open>/dp/\<close> is followed by at least one character of the class, and the longest run
  of such characters there.  \<open>None\<close> when the pattern matches nowhere.
\<close>

fun re_search_asin :: "pystr \<Rightarrow> pystr option" where
  "re_search_asin [] = None"
| "re_search_asin (c # cs) =
     (let run = takeWhile is_asin_char (drop 4 (c # cs))
      in if take 4 (c # cs) = lit ''/dp/'' \<and> run \<noteq> [] then Some run
         else re_search_asin cs)"

text \<open>
  Line 57 of the source: the text of the visually hidden price element, trimmed and
  encoded, or the placeholder string itself when the element is missing.  \<open>.strip()\<close> on
  a \<open>.string\<close> that is \<open>None\<close> raises \<open>AttributeError\<close>.
\<close>

definition original_price_raw :: "soup \<Rightarrow> exn + pyval" where
  "original_price_raw soup =
     (case soup (lit ''span'') (lit ''a-size-small aok-offscreen'') of
        None \<Rightarrow> Inr (PStr (lit ''Not Available''))
      | Some original_price_element \<Rightarrow>
          (case el_string original_price_element of
             None \<Rightarrow> Inl AttributeError
           | Some s \<Rightarrow>
               (case encode (strip s) of
                  Inl e \<Rightarrow> Inl e
                | Inr bs \<Rightarrow> Inr (PBytes bs))))"

text \<open>Lines 61 and 64: the trimmed text of the first element of a class, or the placeholder.\<close>

definition text_or_placeholder :: "soup \<Rightarrow> pystr \<Rightarrow> pystr" where
  "text_or_placeholder soup cls =
     (case soup (lit ''span'') cls of
        None \<Rightarrow> lit ''Not Available''
      | Some el \<Rightarrow> strip (el_text el))"

type_synonym details = "pystr \<times> pystr option \<times> pystr \<times> pystr \<times> pystr"

text \<open>
  Lines 48 to 66 of \<open>extract_product_details_and_info\<close>: the fields computed from the
  parsed page and the URL.  The URL comes from a CSV cell and may be \<open>None\<close>, on which
  \<open>re.search\<close> raises \<open>TypeError\<close>.
\<close>

definition extract_fields :: "soup \<Rightarrow> pystr option \<Rightarrow> exn + details" where
  "extract_fields soup url =
     (case url of
        None \<Rightarrow> Inl TypeError
      | Some u \<Rightarrow>
          (let asin = re_search_asin u
           in case index (py_split (of_char CHR ''/'') u) 3 of
                Inl e \<Rightarrow> Inl e
              | Inr segment \<Rightarrow>
                  (let product_name = replace (of_char CHR ''-'') (lit '' '') segment
                   in case original_price_raw soup of
                        Inl e \<Rightarrow> Inl e
                      | Inr raw \<Rightarrow>
                          (case convert_to_price raw of
                             Inl e \<Rightarrow> Inl e
                           | Inr original_price \<Rightarrow>
                               (let discounted_price =
                                      text_or_placeholder soup (lit ''a-price-whole'');
                                    product_rating =
                                      text_or_placeholder soup (lit ''a-icon-alt'')
                                in Inr (product_name, asin, original_price,
                                        discounted_price, product_rating))))))"

section \<open>The world outside the program\<close>

text \<open>
  What the program prints, one event for each \<open>print\<close> or \<open>input\<close> prompt of the source,
  with the values interpolated into the message.
\<close>

datatype console_event =
    Prompt pystr
  | ErrorFetching "pystr option" exn
  | FileDoesNotExist pystr
  | ScrapingCompleted pystr
  | AnErrorOccurred exn

text \<open>A file is seen as the CSV rows it holds.\<close>

datatype fsnode = Directory | RegularFile "pystr list list"

text \<open>
  The state the program acts on: the file system, the lines waiting on standard input,
  the console, and the state of the network and the clock, which is left abstract.
\<close>

record 'n world =
  fs :: "pystr \<rightharpoonup> fsnode"
  stdin :: "pystr list"
  console :: "console_event list"
  remote :: 'n

text \<open>
  The libraries that reach outside: \<open>time.sleep\<close>, \<open>requests.get\<close> followed by
  \<open>.content\<close>, and the \<open>BeautifulSoup\<close> constructor.  Each may raise.  The output
  file is opened without an \<open>encoding\<close> argument, so it takes the encoding of the
  locale: \<open>output_encoding\<close> tells which code points that encoding can represent.
\<close>

record 'n env =
  sleep :: "nat \<Rightarrow> 'n \<Rightarrow> 'n"
  requests_get :: "pystr option \<Rightarrow> 'n \<Rightarrow> (exn + byte list) \<times> 'n"
  html_parser :: "byte list \<Rightarrow> exn + soup"
  output_encoding :: "codepoint \<Rightarrow> bool"

type_synonym cell = "pystr option"

section \<open>extract_product_details_and_info\<close>

text \<open>
  The whole function: the delay, the request, the parse and the extraction inside
  \<open>try\<close>; the handler of \<open>except Exception\<close> prints and returns five \<open>None\<close>s.
\<close>

definition extract_product_details_and_info ::
  "'n env \<Rightarrow> pystr option \<Rightarrow> 'n world \<Rightarrow> (cell \<times> cell \<times> cell \<times> cell \<times> cell) \<times> 'n world" where
  "extract_product_details_and_info env url w =
     (let (response, n') = requests_get env url (sleep env 2 (remote w));
          w' = w\<lparr>remote := n'\<rparr>;
          outcome =
            (case response of
               Inl e \<Rightarrow> Inl e
             | Inr content \<Rightarrow>
                 (case html_parser env content of
                    Inl e \<Rightarrow> Inl e
                  | Inr soup \<Rightarrow> extract_fields soup url))
      in case outcome of
           Inr (product_name, asin, original_price, discounted_price, product_rating) \<Rightarrow>
             ((Some product_name, asin, Some original_price, Some discounted_price,
               Some product_rating), w')
         | Inl e \<Rightarrow>
             ((None, None, None, None, None),
              w'\<lparr>console := console w' @ [ErrorFetching url e]\<rparr>))"

section \<open>The batch loop of main\<close>

text \<open>What \<open>csv.writer\<close> puts in a cell: \<open>None\<close> is written as the empty string.\<close>

definition csv_cell :: "cell \<Rightarrow> pystr" where
  "csv_cell c = (case c of None \<Rightarrow> [] | Some s \<Rightarrow> s)"

text \<open>
  A row can be written when the encoding of the output file represents every code point
  of every cell.  (The commas, quotes and line ends that the writer adds are ASCII.)
\<close>

definition encodable_row :: "(codepoint \<Rightarrow> bool) \<Rightarrow> cell list \<Rightarrow> bool" where
  "encodable_row enc row = list_all (\<lambda>c. list_all enc (csv_cell c)) row"

text \<open>
  \<open>writer.writerow(row)\<close>: the line is encoded and added to the file, or
  \<open>UnicodeEncodeError\<close> is raised and nothing of the row is written.  The second
  argument is the list of rows written so far.
\<close>

definition writerow ::
  "(codepoint \<Rightarrow> bool) \<Rightarrow> cell list \<Rightarrow> cell list list \<Rightarrow> exn + cell list list" where
  "writerow enc row rows =
     (if encodable_row enc row then Inr (rows @ [row]) else Inl UnicodeEncodeError)"

text \<open>
  Lines 130 to 132: for each URL the details are extracted and a row is handed to
  \<open>writer.writerow\<close>.  The extraction catches its own exceptions; the write is outside
  that \<open>try\<close>, so an exception of the writer ends the loop and leaves it.  The result
  is the exception, if any, the rows written, and the world.
\<close>

fun batch_loop ::
  "'n env \<Rightarrow> cell list \<Rightarrow> cell list list \<times> 'n world \<Rightarrow>
     exn option \<times> cell list list \<times> 'n world" where
  "batch_loop env [] (rows, w) = (None, rows, w)"
| "batch_loop env (url # urls) (rows, w) =
     (let ((product_name, asin, original_price, discounted_price, product_rating), w') =
            extract_product_details_and_info env url w
      in case writerow (output_encoding env)
                [url, product_name, asin, original_price, discounted_price, product_rating]
                rows of
           Inl e \<Rightarrow> (Some e, rows, w')
         | Inr rows' \<Rightarrow> batch_loop env urls (rows', w'))"

section \<open>Files\<close>

definition path_exists :: "(pystr \<rightharpoonup> fsnode) \<Rightarrow> pystr \<Rightarrow> bool" where
  "path_exists files p \<longleftrightarrow> files p \<noteq> None"

definition isfile :: "(pystr \<rightharpoonup> fsnode) \<Rightarrow> pystr \<Rightarrow> bool" where
  "isfile files p = (case files p of Some (RegularFile _) \<Rightarrow> True | _ \<Rightarrow> False)"

text \<open>\<open>open(path, 'r')\<close> followed by \<open>csv.reader\<close>: the rows of the file.\<close>

definition open_read :: "(pystr \<rightharpoonup> fsnode) \<Rightarrow> pystr \<Rightarrow> exn + pystr list list" where
  "open_read files p =
     (case files p of
        None \<Rightarrow> Inl FileNotFoundError
      | Some Directory \<Rightarrow> Inl IsADirectoryError
      | Some (RegularFile rows) \<Rightarrow> Inr rows)"

text \<open>\<open>open(path, 'w')\<close>: the file is created or emptied.\<close>

definition open_write :: "(pystr \<rightharpoonup> fsnode) \<Rightarrow> pystr \<Rightarrow> exn + (pystr \<rightharpoonup> fsnode)" where
  "open_write files p =
     (case files p of
        Some Directory \<Rightarrow> Inl IsADirectoryError
      | _ \<Rightarrow> Inr (files(p \<mapsto> RegularFile [])))"

section \<open>read_urls_from_csv\<close>

text \<open>
  The dictionary \<open>csv.DictReader\<close> builds for one row: the field names zipped with the
  cells, a later duplicate name winning, and \<open>None\<close> under each name the row is too
  short for.  (The entry for surplus cells is stored under the key \<open>None\<close>, which the
  source never looks up.)
\<close>

definition dict_row :: "pystr list \<Rightarrow> pystr list \<Rightarrow> (pystr \<rightharpoonup> cell)" where
  "dict_row fieldnames row =
     fold (\<lambda>key d. d(key \<mapsto> None)) (drop (length row) fieldnames)
       (fold (\<lambda>(key, v) d. d(key \<mapsto> Some v)) (zip fieldnames row) Map.empty)"

text \<open>\<open>d[key]\<close> on a dictionary.\<close>

definition getitem :: "(pystr \<rightharpoonup> 'v) \<Rightarrow> pystr \<Rightarrow> exn + 'v" where
  "getitem d key = (case d key of None \<Rightarrow> Inl (KeyError key) | Some v \<Rightarrow> Inr v)"

text \<open>The column the source reads: \<open>row['URL']\<close>.\<close>

definition URL_column :: pystr where
  "URL_column = lit ''URL''"

text \<open>
  The loop of \<open>read_urls_from_csv\<close> over the rows after the header; the reader skips
  empty rows.
\<close>

fun collect_urls :: "pystr list \<Rightarrow> pystr list list \<Rightarrow> cell list \<Rightarrow> exn + cell list" where
  "collect_urls fieldnames [] urls = Inr urls"
| "collect_urls fieldnames (row # rows) urls =
     (if row = [] then collect_urls fieldnames rows urls
      else (case getitem (dict_row fieldnames row) URL_column of
              Inl e \<Rightarrow> Inl e
            | Inr url \<Rightarrow> collect_urls fieldnames rows (urls @ [url])))"

definition read_urls_from_csv :: "(pystr \<rightharpoonup> fsnode) \<Rightarrow> pystr \<Rightarrow> exn + cell list" where
  "read_urls_from_csv files csv_file =
     (case open_read files csv_file of
        Inl e \<Rightarrow> Inl e
      | Inr [] \<Rightarrow> Inr []
      | Inr (fieldnames # rows) \<Rightarrow> collect_urls fieldnames rows [])"

section \<open>get_unique_output_file\<close>

text \<open>\<open>p.rfind(c)\<close>: the last position of \<open>c\<close>, or \<open>-1\<close>.\<close>

definition rfind :: "codepoint \<Rightarrow> pystr \<Rightarrow> int" where
  "rfind c p =
     (case filter (\<lambda>i. p ! i = c) (rev [0..<length p]) of
        [] \<Rightarrow> - 1
      | i # _ \<Rightarrow> int i)"

text \<open>
  \<open>os.path.splitext\<close> (the POSIX one): the extension starts at the last dot of the last
  path component, unless that component has only dots before it.
\<close>

definition splitext :: "pystr \<Rightarrow> pystr \<times> pystr" where
  "splitext p =
     (let sepIndex = rfind (of_char CHR ''/'') p;
          dotIndex = rfind (of_char CHR ''.'') p
      in if dotIndex > sepIndex \<and>
            list_ex (\<lambda>i. p ! nat i \<noteq> of_char CHR ''.'') [sepIndex + 1 .. dotIndex - 1]
         then (take (nat dotIndex) p, drop (nat dotIndex) p)
         else (p, []))"

text \<open>\<open>str(count)\<close> for the counter, which starts at 1 and only grows.\<close>

fun str_nat :: "nat \<Rightarrow> pystr" where
  "str_nat n = (if n < 10 then [48 + n] else str_nat (n div 10) @ [48 + n mod 10])"

declare str_nat.simps [simp del]

text \<open>The name tried for a given value of the counter: \<open>f"{base_name}_{count}{ext}"\<close>.\<close>

definition candidate :: "pystr \<Rightarrow> pystr \<Rightarrow> nat \<Rightarrow> pystr" where
  "candidate base_name ext count = base_name @ lit ''_'' @ str_nat count @ ext"

text \<open>The \<open>while\<close> loop; \<open>None\<close> is a loop that never ends.\<close>

partial_function (option) unique_loop ::
  "(pystr \<rightharpoonup> fsnode) \<Rightarrow> pystr \<Rightarrow> pystr \<Rightarrow> pystr \<Rightarrow> nat \<Rightarrow> pystr option" where
  "unique_loop files base_name ext output_csv_file count =
     (if path_exists files output_csv_file
      then unique_loop files base_name ext (candidate base_name ext count) (count + 1)
      else Some output_csv_file)"

definition get_unique_output_file :: "(pystr \<rightharpoonup> fsnode) \<Rightarrow> pystr \<Rightarrow> pystr option" where
  "get_unique_output_file files output_csv_file =
     (let (base_name, ext) = splitext output_csv_file
      in unique_loop files base_name ext output_csv_file 1)"

section \<open>main\<close>

text \<open>\<open>input(prompt)\<close>: the prompt is shown and a line is read; at end of input it raises.\<close>

definition py_input :: "pystr \<Rightarrow> 'n world \<Rightarrow> (exn + pystr) \<times> 'n world" where
  "py_input prompt w =
     (let w' = w\<lparr>console := console w @ [Prompt prompt]\<rparr>
      in case stdin w of
           [] \<Rightarrow> (Inl EOFError, w')
         | line # rest \<Rightarrow> (Inr line, w'\<lparr>stdin := rest\<rparr>))"

text \<open>\<open>print(...)\<close>: the console is taken to show every message.\<close>

definition print :: "console_event \<Rightarrow> 'n world \<Rightarrow> 'n world" where
  "print ev w = w\<lparr>console := console w @ [ev]\<rparr>"

text \<open>
  \<open>s.lower()\<close> on the ASCII letters.  Code points outside ASCII are left as they are:
  the source only compares the result with \<open>'y'\<close>, and \<open>Y\<close> is the only other code
  point whose lower case is \<open>y\<close>.
\<close>

definition lower :: "pystr \<Rightarrow> pystr" where
  "lower s = map (\<lambda>c. if 65 \<le> c \<and> c \<le> 90 then c + 32 else c) s"

text \<open>The texts of the two prompts and the default name of the output file.\<close>

definition path_prompt :: pystr where
  "path_prompt = lit ''Enter the path to the CSV file containing Amazon product URLs: ''"

definition overwrite_prompt :: "pystr \<Rightarrow> pystr" where
  "overwrite_prompt output_csv_file =
     lit [CHR 0x27] @ output_csv_file @ lit [CHR 0x27] @
     lit '' already exists. Do you want to overwrite it? (y/n): ''"

definition default_output :: pystr where
  "default_output = lit ''output_details.csv''"

definition header_row :: "cell list" where
  "header_row =
     map Some [lit ''URL'', lit ''Product Name'', lit ''ASIN'', lit ''Original Price'',
               lit ''Discounted Price'', lit ''Product Rating'']"

text \<open>
  Lines 117 to 122: the output name, after asking the operator when the default name is
  taken.  \<open>None\<close> when the search for a free name never ends.
\<close>

definition choose_output :: "'n world \<Rightarrow> ((exn + pystr) \<times> 'n world) option" where
  "choose_output w =
     (let output_csv_file = default_output
      in if path_exists (fs w) output_csv_file then
           (case py_input (overwrite_prompt output_csv_file) w of
              (Inl e, w') \<Rightarrow> Some (Inl e, w')
            | (Inr choice, w') \<Rightarrow>
                if lower choice \<noteq> lit ''y'' then
                  (case get_unique_output_file (fs w') output_csv_file of
                     None \<Rightarrow> None
                   | Some unique \<Rightarrow> Some (Inr unique, w'))
                else Some (Inr output_csv_file, w'))
         else Some (Inr output_csv_file, w))"

text \<open>
  Lines 124 to 134: the URLs are read, then the output file is opened, the header and one
  row for each URL are written.  Leaving the \<open>with\<close> block closes the file with the
  rows written so far in it, also when an exception of the writer leaves the block.
\<close>

definition scrape :: "'n env \<Rightarrow> pystr \<Rightarrow> pystr \<Rightarrow> 'n world \<Rightarrow> (exn + unit) \<times> 'n world" where
  "scrape env input_csv_path output_csv_file w =
     (case read_urls_from_csv (fs w) input_csv_path of
        Inl e \<Rightarrow> (Inl e, w)
      | Inr urls \<Rightarrow>
          (case open_write (fs w) output_csv_file of
             Inl e \<Rightarrow> (Inl e, w)
           | Inr files' \<Rightarrow>
               (case writerow (output_encoding env) header_row [] of
                  Inl e \<Rightarrow> (Inl e, w\<lparr>fs := files'\<rparr>)
                | Inr rows0 \<Rightarrow>
                    (let (err, rows, w') = batch_loop env urls (rows0, w\<lparr>fs := files'\<rparr>);
                         w'' = w'\<lparr>fs := (fs w')(output_csv_file \<mapsto>
                                       RegularFile (map (map csv_cell) rows))\<rparr>
                     in case err of
                          Some e \<Rightarrow> (Inl e, w'')
                        | None \<Rightarrow> (Inr (), print (ScrapingCompleted output_csv_file) w'')))))"

text \<open>The body of the \<open>try\<close> block of \<open>main\<close>.\<close>

definition main_body :: "'n env \<Rightarrow> 'n world \<Rightarrow> ((exn + unit) \<times> 'n world) option" where
  "main_body env w =
     (case py_input path_prompt w of
        (Inl e, w1) \<Rightarrow> Some (Inl e, w1)
      | (Inr line, w1) \<Rightarrow>
          (let input_csv_path = strip_chars [34] line
           in if \<not> isfile (fs w1) input_csv_path
              then Some (Inr (), print (FileDoesNotExist input_csv_path) w1)
              else (case choose_output w1 of
                      None \<Rightarrow> None
                    | Some (Inl e, w2) \<Rightarrow> Some (Inl e, w2)
                    | Some (Inr output_csv_file, w2) \<Rightarrow>
                        Some (scrape env input_csv_path output_csv_file w2))))"

text \<open>\<open>main\<close>: an exception of the body is caught and printed.\<close>

definition main :: "'n env \<Rightarrow> 'n world \<Rightarrow> 'n world option" where
  "main env w =
     (case main_body env w of
        None \<Rightarrow> None
      | Some (Inl e, w') \<Rightarrow> Some (print (AnErrorOccurred e) w')
      | Some (Inr _, w') \<Rightarrow> Some w')"

section \<open>Notions of the specification\<close>






text \<open>
  Where the pattern \<open>/dp/([A-Z0-9]+)\<close> matches: \<open>/dp/\<close> at position \<open>i\<close>, followed
  by at least one upper-case letter or digit.
\<close>

definition asin_match_at :: "pystr \<Rightarrow> nat \<Rightarrow> bool" where
  "asin_match_at url i \<longleftrightarrow>
     take 4 (drop i url) = lit ''/dp/'' \<and> i + 4 < length url \<and> is_asin_char (url ! (i + 4))"

text \<open>
  The specification's words for the catalog identifier: the first path segment of the form
  \<open>/dp/<alphanumeric-run>\<close>, where a run may hold letters of either case and digits.
\<close>

definition is_alnum :: "codepoint \<Rightarrow> bool" where
  "is_alnum c \<longleftrightarrow> (48 \<le> c \<and> c \<le> 57) \<or> (65 \<le> c \<and> c \<le> 90) \<or> (97 \<le> c \<and> c \<le> 122)"

fun dp_alnum_segment :: "pystr \<Rightarrow> pystr option" where
  "dp_alnum_segment [] = None"
| "dp_alnum_segment (c # cs) =
     (if take 4 (c # cs) = lit ''/dp/'' \<and> takeWhile is_alnum (drop 4 (c # cs)) \<noteq> []
      then Some (takeWhile is_alnum (drop 4 (c # cs)))
      else dp_alnum_segment cs)"

text \<open>
  What \<open>extract_product_details_and_info\<close> computes from the response of the request,
  the parser and the URL.
\<close>

definition outcome_of :: "(byte list \<Rightarrow> exn + soup) \<Rightarrow> exn + byte list \<Rightarrow> pystr option \<Rightarrow> exn + details" where
  "outcome_of parser response url =
     (case response of
        Inl e \<Rightarrow> Inl e
      | Inr content \<Rightarrow>
          (case parser content of Inl e \<Rightarrow> Inl e | Inr soup \<Rightarrow> extract_fields soup url))"

text \<open>The row that line 132 builds for a URL, from what the function returned for it.\<close>

fun row_of :: "cell \<Rightarrow> exn + details \<Rightarrow> cell list" where
  "row_of url (Inl e) = [url, None, None, None, None, None]"
| "row_of url (Inr (name, asin, price, disc, rating)) =
     [url, Some name, asin, Some price, Some disc, Some rating]"

text \<open>
  The responses the network gives to the requests of a batch, one after the other, from
  the state \<open>n\<close> of the network on.
\<close>

fun responses :: "'n env \<Rightarrow> cell list \<Rightarrow> 'n \<Rightarrow> (exn + byte list) list" where
  "responses env [] n = []"
| "responses env (url # urls) n =
     (let (response, n') = requests_get env url (sleep env 2 n)
      in response # responses env urls n')"

text \<open>The rows of a batch: for each URL, the row of its URL and of the response to it.\<close>

definition expected_rows :: "'n env \<Rightarrow> cell list \<Rightarrow> 'n \<Rightarrow> cell list list" where
  "expected_rows env urls n =
     map (\<lambda>(url, response). row_of url (outcome_of (html_parser env) response url))
       (zip urls (responses env urls n))"

text \<open>The number a decimal numeral stands for.\<close>

definition digits_value :: "pystr \<Rightarrow> nat" where
  "digits_value ds = foldl (\<lambda>a d. 10 * a + (d - 48)) 0 ds"

section \<open>Concrete environments and worlds\<close>

text \<open>
  A network that answers every request with an empty page, and one that refuses every
  connection.  The abstract state counts the seconds slept and the requests made.
\<close>

definition env_ok :: "nat env" where
  "env_ok = \<lparr>sleep = (\<lambda>secs n. n + secs),
             requests_get = (\<lambda>url n. (Inr [], Suc n)),
             html_parser = (\<lambda>content. Inr (\<lambda>tag cls. None)),
             output_encoding = (\<lambda>c. True)\<rparr>"

definition env_down :: "nat env" where
  "env_down = \<lparr>sleep = (\<lambda>secs n. n + secs),
               requests_get = (\<lambda>url n. (Inl (LibraryError (lit ''connection refused'')), Suc n)),
               html_parser = (\<lambda>content. Inr (\<lambda>tag cls. None)),
               output_encoding = (\<lambda>c. True)\<rparr>"

text \<open>
  A network whose pages show the price \<open>12\<close> after the rupee sign U+20B9, and an
  output file in an encoding of one octet for each code point below 256.
\<close>

definition rupee_page :: soup where
  "rupee_page tag cls =
     (if tag = lit ''span'' \<and> cls = lit ''a-price-whole''
      then Some \<lparr>el_string = Some [8377, 49, 50], el_text = [8377, 49, 50]\<rparr>
      else None)"

definition env_rupee :: "nat env" where
  "env_rupee = \<lparr>sleep = (\<lambda>secs n. n + secs),
                requests_get = (\<lambda>url n. (Inr [], Suc n)),
                html_parser = (\<lambda>content. Inr rupee_page),
                output_encoding = (\<lambda>c. c < 256)\<rparr>"

text \<open>
  Worlds: nothing at all, input files with and without the \<open>URL\<close> column, and a file
  system with two output files.
\<close>

definition idle :: "nat world" where
  "idle = \<lparr>fs = Map.empty, stdin = [], console = [], remote = 0\<rparr>"

definition header_only :: "nat world" where
  "header_only =
     \<lparr>fs = [lit ''in.csv'' \<mapsto> RegularFile [[lit ''Link'']]],
      stdin = [lit ''in.csv''], console = [], remote = 0\<rparr>"

definition no_url_column :: "nat world" where
  "no_url_column =
     \<lparr>fs = [lit ''in.csv'' \<mapsto> RegularFile [[lit ''Link''], [lit ''https://a.b/c/dp/B01'']]],
      stdin = [lit ''in.csv''], console = [], remote = 0\<rparr>"

definition no_input_file :: "nat world" where
  "no_input_file = \<lparr>fs = Map.empty, stdin = [lit ''in.csv''], console = [], remote = 0\<rparr>"

definition two_urls :: "nat world" where
  "two_urls =
     \<lparr>fs = [lit ''in.csv'' \<mapsto>
              RegularFile [[lit ''URL''], [lit ''https://a.b/c-d/dp/B01''], [lit ''x'']]],
      stdin = [], console = [], remote = 0\<rparr>"


definition two_outputs :: "pystr \<rightharpoonup> fsnode" where
  "two_outputs = [lit ''output.csv'' \<mapsto> RegularFile [], lit ''output_1.csv'' \<mapsto> RegularFile []]"

section \<open>Properties of convert_to_price\<close>

lemma py_split_not_Nil: "py_split sep s \<noteq> []"
  by (induction s) (auto split: list.splits)

lemma index_last: "xs \<noteq> [] \<Longrightarrow> index xs (- 1) = Inr (last xs)"
  by (cases xs rule: rev_cases) (simp_all add: index_def nat_add_distrib)

lemma price_from_bytes_error: "price_from_bytes bs = Inl e \<Longrightarrow> e = UnicodeDecodeError"
  by (auto simp: price_from_bytes_def decode_def index_last py_split_not_Nil Let_def
           split: sum.splits option.splits)


lemma convert_to_price_returns: "\<exists>s. convert_to_price v = Inr s"
  by (cases v) (auto simp: convert_to_price_def split: sum.splits dest: price_from_bytes_error)



















text \<open>
  C2.  The empty bytes value decodes to the empty text, which has no colon and whose
  trailing segment is empty after trimming; the function returns the empty string, not
  the sentinel.  The bytes of \<open>$12\<close> decode to a text without a colon, and the function
  returns \<open>12\<close>.  The handler for \<open>IndexError\<close> is never reached, because slicing
  and indexing the result of \<open>split\<close> from the end never raise
  (\<open>price_from_bytes_error\<close>); the function itself never raises
  (\<open>convert_to_price_returns\<close>).
\<close>

theorem convert_to_price_empty_bytes:
  "decode [] = Inr [] \<and> of_char CHR '':'' \<notin> set ([] :: pystr) \<and> strip [] = [] \<and>
   convert_to_price (PBytes []) = Inr [] \<and> [] \<noteq> NotAvailable \<and>
   decode (blit ''$12'') = Inr (lit ''$12'') \<and> of_char CHR '':'' \<notin> set (lit ''$12'') \<and>
   convert_to_price (PBytes (blit ''$12'')) = Inr (lit ''12'') \<and> lit ''12'' \<noteq> NotAvailable"
  by (simp add: convert_to_price_def price_from_bytes_def decode_def index_def strip_def
      isspace_def replace_def NotAvailable_def)

section \<open>Properties of the page extractor\<close>

lemma convert_to_price_other: "\<not> isinstance_bytes v \<Longrightarrow> convert_to_price v = Inr NotAvailable"
  by (cases v) (simp_all add: convert_to_price_def)

lemma original_price_absent:
  "soup (lit ''span'') (lit ''a-size-small aok-offscreen'') = None \<Longrightarrow>
   original_price_raw soup = Inr (PStr (lit ''Not Available''))"
  by (simp add: original_price_raw_def)

lemma extract_fields_Inr:
  "extract_fields soup url = Inr (name, asin, price, disc, rating) \<Longrightarrow>
   \<exists>u segment raw.
     url = Some u \<and> asin = re_search_asin u \<and>
     index (py_split (of_char CHR ''/'') u) 3 = Inr segment \<and>
     name = replace (of_char CHR ''-'') (lit '' '') segment \<and>
     original_price_raw soup = Inr raw \<and> convert_to_price raw = Inr price \<and>
     disc = text_or_placeholder soup (lit ''a-price-whole'') \<and>
     rating = text_or_placeholder soup (lit ''a-icon-alt'')"
  by (auto simp: extract_fields_def Let_def split: option.splits sum.splits)

text \<open>
  C10.  Every value that is not a bytes value, the string \<open>Not Available\<close> among them,
  is mapped to the sentinel by \<open>convert_to_price\<close>.  When the markup has no visually
  hidden price element the extractor passes that very string to \<open>convert_to_price\<close>,
  so the original price of the record is the sentinel.
\<close>

theorem absent_price_is_sentinel:
  "(\<not> isinstance_bytes v \<longrightarrow> convert_to_price v = Inr NotAvailable) \<and>
   convert_to_price (PStr (lit ''Not Available'')) = Inr NotAvailable \<and>
   (soup (lit ''span'') (lit ''a-size-small aok-offscreen'') = None \<and>
    extract_fields soup url = Inr (name, asin, price, disc, rating) \<longrightarrow>
      original_price_raw soup = Inr (PStr (lit ''Not Available'')) \<and> price = NotAvailable)"
proof (intro conjI impI)
  show "convert_to_price v = Inr NotAvailable" if "\<not> isinstance_bytes v"
    using that by (rule convert_to_price_other)
  show "convert_to_price (PStr (lit ''Not Available'')) = Inr NotAvailable"
    by (rule convert_to_price_other) simp
next
  assume a: "soup (lit ''span'') (lit ''a-size-small aok-offscreen'') = None \<and>
    extract_fields soup url = Inr (name, asin, price, disc, rating)"
  then show raw: "original_price_raw soup = Inr (PStr (lit ''Not Available''))"
    by (intro original_price_absent) blast
  from a obtain r where "original_price_raw soup = Inr r" "convert_to_price r = Inr price"
    using extract_fields_Inr by blast
  with raw show "price = NotAvailable"
    using convert_to_price_other [of "PStr (lit ''Not Available'')"] by simp
qed

text \<open>C10 at an integer argument and at a page without any of the three elements.\<close>

theorem absent_price_is_sentinel_witness:
  "\<not> isinstance_bytes (PInt 5) \<and> convert_to_price (PInt 5) = Inr NotAvailable \<and>
   extract_fields (\<lambda>tag cls. None) (Some (lit ''https://a.b/c-d/dp/B01'')) =
     Inr (lit ''c d'', Some (lit ''B01''), NotAvailable, NotAvailable, NotAvailable) \<and>
   original_price_raw (\<lambda>tag cls. None) = Inr (PStr (lit ''Not Available''))"
  using absent_price_is_sentinel [of "PInt 5" "\<lambda>tag cls. None" "Some (lit ''https://a.b/c-d/dp/B01'')"
      "lit ''c d''" "Some (lit ''B01'')" NotAvailable NotAvailable NotAvailable]
  by (simp add: extract_fields_def index_def replace_def original_price_raw_def
      convert_to_price_def text_or_placeholder_def NotAvailable_def is_asin_char_def)

text \<open>
  C6.  For the URL \<open>https://site.example/wireless-mouse/dp/B0ABCXYZ12\<close> and any page
  that lacks the visually hidden price element, the whole-number price element and the
  rating element, the extractor gives the name \<open>wireless mouse\<close> (the fourth segment
  between slashes, hyphens replaced by spaces), the identifier \<open>B0ABCXYZ12\<close> and the
  sentinel for the two prices and the rating.
\<close>

theorem extract_fields_example:
  assumes "soup (lit ''span'') (lit ''a-size-small aok-offscreen'') = None"
    and "soup (lit ''span'') (lit ''a-price-whole'') = None"
    and "soup (lit ''span'') (lit ''a-icon-alt'') = None"
  shows "extract_fields soup (Some (lit ''https://site.example/wireless-mouse/dp/B0ABCXYZ12'')) =
           Inr (lit ''wireless mouse'', Some (lit ''B0ABCXYZ12''),
                NotAvailable, NotAvailable, NotAvailable)"
proof -
  have "original_price_raw soup = Inr (PStr (lit ''Not Available''))"
    using assms(1) by (rule original_price_absent)
  moreover have "text_or_placeholder soup (lit ''a-price-whole'') = NotAvailable"
    "text_or_placeholder soup (lit ''a-icon-alt'') = NotAvailable"
    using assms(2,3) by (simp_all add: text_or_placeholder_def NotAvailable_def)
  moreover have "index (py_split (of_char CHR ''/'') (lit ''https://site.example/wireless-mouse/dp/B0ABCXYZ12'')) 3
     = Inr (lit ''wireless-mouse'')"
    by (simp add: index_def)
  moreover have "re_search_asin (lit ''https://site.example/wireless-mouse/dp/B0ABCXYZ12'') = Some (lit ''B0ABCXYZ12'')"
    by (simp add: is_asin_char_def)
  moreover have "convert_to_price (PStr (lit ''Not Available'')) = Inr NotAvailable"
    by (simp add: convert_to_price_def)
  ultimately show ?thesis
    by (simp add: extract_fields_def replace_def del: re_search_asin.simps py_split.simps)
qed

text \<open>C6 at the page that has no element at all.\<close>

theorem extract_fields_example_witness:
  "extract_fields (\<lambda>tag cls. None) (Some (lit ''https://site.example/wireless-mouse/dp/B0ABCXYZ12'')) =
           Inr (lit ''wireless mouse'', Some (lit ''B0ABCXYZ12''),
                NotAvailable, NotAvailable, NotAvailable)"
  using extract_fields_example [of "\<lambda>tag cls. None"] by simp

lemma takeWhile_drop_not_Nil:
  "takeWhile P (drop n xs) \<noteq> [] \<longleftrightarrow> n < length xs \<and> P (xs ! n)"
proof (cases "n < length xs")
  case True
  then have "drop n xs = xs ! n # drop (Suc n) xs" by (simp add: Cons_nth_drop_Suc)
  then show ?thesis using True by simp
qed simp

lemma asin_match_at_0:
  "asin_match_at url 0 \<longleftrightarrow>
     take 4 url = lit ''/dp/'' \<and> takeWhile is_asin_char (drop 4 url) \<noteq> []"
  by (simp add: asin_match_at_def takeWhile_drop_not_Nil del: of_char_Char)

lemma asin_match_at_Suc: "asin_match_at (c # cs) (Suc i) = asin_match_at cs i"
  by (simp add: asin_match_at_def add.commute)

lemma re_search_asin_Cons:
  "re_search_asin (c # cs) =
     (if asin_match_at (c # cs) 0 then Some (takeWhile is_asin_char (drop 4 (c # cs)))
      else re_search_asin cs)"
  unfolding asin_match_at_0 re_search_asin.simps Let_def by (rule refl)

lemma re_search_asin_None:
  "re_search_asin url = None \<longleftrightarrow> (\<forall>i. \<not> asin_match_at url i)"
proof (induction url)
  case Nil
  show ?case by (simp add: asin_match_at_def)
next
  case (Cons c cs)
  show ?case
  proof (cases "asin_match_at (c # cs) 0")
    case True
    then have "re_search_asin (c # cs) \<noteq> None"
      by (simp only: re_search_asin_Cons if_True) simp
    with True show ?thesis by blast
  next
    case False
    then have "re_search_asin (c # cs) = re_search_asin cs"
      by (simp only: re_search_asin_Cons if_False)
    moreover have "(\<forall>i. \<not> asin_match_at (c # cs) i) \<longleftrightarrow> (\<forall>i. \<not> asin_match_at cs i)"
    proof
      assume "\<forall>i. \<not> asin_match_at (c # cs) i"
      then show "\<forall>i. \<not> asin_match_at cs i" using asin_match_at_Suc by blast
    next
      assume a: "\<forall>i. \<not> asin_match_at cs i"
      show "\<forall>i. \<not> asin_match_at (c # cs) i"
      proof
        fix i show "\<not> asin_match_at (c # cs) i"
          using a False by (cases i) (simp_all add: asin_match_at_Suc)
      qed
    qed
    ultimately show ?thesis using Cons.IH by simp
  qed
qed

lemma re_search_asin_first:
  "asin_match_at url i \<Longrightarrow> (\<And>j. j < i \<Longrightarrow> \<not> asin_match_at url j) \<Longrightarrow>
   re_search_asin url = Some (takeWhile is_asin_char (drop (i + 4) url))"
proof (induction url arbitrary: i)
  case Nil
  then show ?case by (simp add: asin_match_at_def)
next
  case (Cons c cs)
  show ?case
  proof (cases i)
    case 0
    with Cons.prems(1) show ?thesis
      by (simp only: re_search_asin_Cons if_True add_0)
  next
    case (Suc k)
    then have "\<not> asin_match_at (c # cs) 0" using Cons.prems(2) by simp
    then have step: "re_search_asin (c # cs) = re_search_asin cs"
      by (simp only: re_search_asin_Cons if_False)
    have here: "asin_match_at cs k"
      using Cons.prems(1) Suc by (simp add: asin_match_at_Suc)
    have before: "\<And>j. j < k \<Longrightarrow> \<not> asin_match_at cs j"
      using Cons.prems(2) [of "Suc _"] Suc by (simp add: asin_match_at_Suc)
    have dr: "drop (i + 4) (c # cs) = drop (k + 4) cs"
      by (simp only: Suc add_Suc drop_Suc_Cons)
    have "re_search_asin cs = Some (takeWhile is_asin_char (drop (k + 4) cs))"
      using here before by (rule Cons.IH)
    then show ?thesis unfolding step dr .
  qed
qed

text \<open>
  C5 (amended).  Whenever the extraction completes, the catalog identifier is \<open>None\<close>
  exactly when \<open>/dp/\<close> is nowhere in the URL followed by an upper-case letter or a
  digit; otherwise it is the longest run of upper-case letters and digits after the
  leftmost such \<open>/dp/\<close>.
\<close>

theorem extract_fields_asin:
  "extract_fields soup (Some url) = Inr (name, asin, price, disc, rating) \<Longrightarrow>
   (asin = None \<longleftrightarrow> (\<forall>i. \<not> asin_match_at url i)) \<and>
   (\<forall>i. asin_match_at url i \<and> (\<forall>j<i. \<not> asin_match_at url j) \<longrightarrow>
        asin = Some (takeWhile is_asin_char (drop (i + 4) url)))"
proof -
  assume "extract_fields soup (Some url) = Inr (name, asin, price, disc, rating)"
  then have a: "asin = re_search_asin url"
    using extract_fields_Inr by blast
  show ?thesis
    unfolding a using re_search_asin_None re_search_asin_first by blast
qed

text \<open>C5 at a URL whose identifier is followed by a lower-case letter.\<close>

theorem extract_fields_asin_witness:
  "extract_fields (\<lambda>tag cls. None) (Some (lit ''https://a.b/c-d/dp/B01x'')) =
     Inr (lit ''c d'', Some (lit ''B01''), NotAvailable, NotAvailable, NotAvailable) \<and>
   asin_match_at (lit ''https://a.b/c-d/dp/B01x'') 15 \<and>
   list_all (\<lambda>j. \<not> asin_match_at (lit ''https://a.b/c-d/dp/B01x'') j) [0..<15] \<and>
   takeWhile is_asin_char (drop (15 + 4) (lit ''https://a.b/c-d/dp/B01x'')) = lit ''B01''"
proof -
  let ?u = "lit ''https://a.b/c-d/dp/B01x''"
  have e: "extract_fields (\<lambda>tag cls. None) (Some ?u) =
     Inr (lit ''c d'', Some (lit ''B01''), NotAvailable, NotAvailable, NotAvailable)"
    by (simp add: extract_fields_def index_def replace_def original_price_raw_def
      convert_to_price_def text_or_placeholder_def NotAvailable_def is_asin_char_def)
  have m: "asin_match_at ?u 15"
    by (simp add: asin_match_at_def is_asin_char_def)
  have t: "takeWhile is_asin_char (drop (15 + 4) ?u) = lit ''B01''"
    by (simp add: is_asin_char_def)
  have n: "\<forall>j<15. \<not> asin_match_at ?u j"
    by (simp add: asin_match_at_def All_less_Suc numeral_eq_Suc del: of_char_Char)
  then have l: "list_all (\<lambda>j. \<not> asin_match_at ?u j) [0..<15]"
    unfolding list_all_iff by (metis atLeastLessThan_iff set_upt)
  from extract_fields_asin [OF e] m n
  have "Some (lit ''B01'') = Some (takeWhile is_asin_char (drop (15 + 4) ?u))" by blast
  then have t': "takeWhile is_asin_char (drop (15 + 4) ?u) = lit ''B01''"
    by (simp only: option.inject)
  show ?thesis by (intro conjI) (rule e, rule m, rule l, rule t')
qed

text \<open>
  C5 as stated fails: the URL below has the path segment \<open>/dp/b0abcxyz12\<close>, an
  alphanumeric run, and the extraction completes with the identifier \<open>None\<close>, because
  the pattern of the source accepts upper-case letters and digits only.
\<close>

theorem extract_fields_lowercase_asin:
  "dp_alnum_segment (lit ''https://site.example/mouse/dp/b0abcxyz12'') = Some (lit ''b0abcxyz12'') \<and>
   extract_fields (\<lambda>tag cls. None) (Some (lit ''https://site.example/mouse/dp/b0abcxyz12'')) =
     Inr (lit ''mouse'', None, NotAvailable, NotAvailable, NotAvailable)"
  by (simp add: extract_fields_def index_def replace_def original_price_raw_def
      convert_to_price_def text_or_placeholder_def NotAvailable_def is_asin_char_def is_alnum_def)

section \<open>Properties of extract_product_details_and_info and of the batch loop\<close>

lemma details_cases:
  "fst (extract_product_details_and_info env url w) =
     (case outcome_of (html_parser env) (fst (requests_get env url (sleep env 2 (remote w)))) url of
        Inl e \<Rightarrow> (None, None, None, None, None)
      | Inr (name, asin, price, disc, rating) \<Rightarrow> (Some name, asin, Some price, Some disc, Some rating))"
  by (simp add: extract_product_details_and_info_def outcome_of_def Let_def
      split: prod.splits sum.splits)

text \<open>
  C9.  The details returned for a URL depend on nothing but the URL, the response to the
  request and the parser: two runs, in any two worlds and with any two networks, that
  receive the same response return the same details.  The file system, the console, the
  input and the state of the network have no other influence.
\<close>

theorem extraction_deterministic:
  "fst (requests_get envA url (sleep envA 2 (remote wA))) =
     fst (requests_get envB url (sleep envB 2 (remote wB))) \<Longrightarrow>
   html_parser envA = html_parser envB \<Longrightarrow>
   fst (extract_product_details_and_info envA url wA) =
     fst (extract_product_details_and_info envB url wB)"
  by (simp only: details_cases)

text \<open>C9 for two worlds that differ in the state of the network and in the console.\<close>

theorem extraction_deterministic_witness:
  "fst (requests_get env_ok (Some (lit ''https://a.b/c-d/dp/B01'')) (sleep env_ok 2 (remote two_urls))) =
     fst (requests_get env_ok (Some (lit ''https://a.b/c-d/dp/B01''))
            (sleep env_ok 2 (remote (two_urls\<lparr>remote := 7, console := [Prompt []]\<rparr>)))) \<and>
   fst (extract_product_details_and_info env_ok (Some (lit ''https://a.b/c-d/dp/B01'')) two_urls) =
     fst (extract_product_details_and_info env_ok (Some (lit ''https://a.b/c-d/dp/B01''))
            (two_urls\<lparr>remote := 7, console := [Prompt []]\<rparr>))"
  using extraction_deterministic [of env_ok "Some (lit ''https://a.b/c-d/dp/B01'')" two_urls
      env_ok "two_urls\<lparr>remote := 7, console := [Prompt []]\<rparr>"]
  by (simp add: env_ok_def)

lemma extract_row:
  assumes "extract_product_details_and_info env url w = ((n, a, p, d, r), w')"
  shows "[url, n, a, p, d, r] =
           row_of url (outcome_of (html_parser env)
                         (fst (requests_get env url (sleep env 2 (remote w)))) url)"
proof -
  let ?o = "outcome_of (html_parser env) (fst (requests_get env url (sleep env 2 (remote w)))) url"
  have c: "(n, a, p, d, r) =
     (case ?o of
        Inl e \<Rightarrow> (None, None, None, None, None)
      | Inr (name, asin, price, disc, rating) \<Rightarrow>
          (Some name, asin, Some price, Some disc, Some rating))"
    using details_cases [of env url w] assms by simp
  show ?thesis
  proof (cases ?o)
    case (Inl e)
    with c show ?thesis by simp
  next
    case (Inr t)
    obtain name asin price disc rating where "t = (name, asin, price, disc, rating)"
      by (cases t)
    with Inr c show ?thesis by simp
  qed
qed

lemma extract_remote:
  "remote (snd (extract_product_details_and_info env url w)) =
     snd (requests_get env url (sleep env 2 (remote w)))"
  by (simp add: extract_product_details_and_info_def Let_def split: prod.splits sum.splits)

lemma expected_rows_Nil: "expected_rows env [] n = []"
  by (simp add: expected_rows_def)

lemma expected_rows_Cons:
  "expected_rows env (url # urls) n =
     row_of url (outcome_of (html_parser env) (fst (requests_get env url (sleep env 2 n))) url) #
     expected_rows env urls (snd (requests_get env url (sleep env 2 n)))"
  by (simp add: expected_rows_def split: prod.splits)

lemma responses_length: "length (responses env urls n) = length urls"
  by (induction urls arbitrary: n) (simp_all split: prod.splits)

lemma expected_rows_length: "length (expected_rows env urls n) = length urls"
  by (simp add: expected_rows_def responses_length)


lemma row_of_length: "length (row_of url outcome) = 6"
  by (cases "(url, outcome)" rule: row_of.cases) simp_all


lemma expected_rows_nth:
  "i < length urls \<Longrightarrow>
   expected_rows env urls n ! i =
     row_of (urls ! i) (outcome_of (html_parser env) (responses env urls n ! i) (urls ! i))"
  by (simp add: expected_rows_def responses_length)

lemma batch_loop_char:
  "batch_loop env urls (rows, w) = (err, rows', w') \<Longrightarrow>
   rows' = rows @ takeWhile (encodable_row (output_encoding env))
                    (expected_rows env urls (remote w)) \<and>
   err = (if list_all (encodable_row (output_encoding env)) (expected_rows env urls (remote w))
          then None else Some UnicodeEncodeError)"
proof (induction urls arbitrary: rows w)
  case Nil
  then show ?case by (simp add: expected_rows_Nil)
next
  case (Cons url urls)
  obtain n a p d r w1 where e: "extract_product_details_and_info env url w = ((n, a, p, d, r), w1)"
    by (metis prod_cases5 surj_pair)
  let ?row = "[url, n, a, p, d, r]"
  let ?n1 = "snd (requests_get env url (sleep env 2 (remote w)))"
  have row: "?row = row_of url (outcome_of (html_parser env)
       (fst (requests_get env url (sleep env 2 (remote w)))) url)"
    using e by (rule extract_row)
  have rem: "remote w1 = ?n1" using extract_remote [of env url w] e by simp
  have ex: "expected_rows env (url # urls) (remote w) = ?row # expected_rows env urls (remote w1)"
    unfolding expected_rows_Cons row rem ..
  show ?case
  proof (cases "encodable_row (output_encoding env) ?row")
    case True
    then have "batch_loop env urls (rows @ [?row], w1) = (err, rows', w')"
      using Cons.prems e by (simp add: writerow_def)
    from Cons.IH [OF this] True show ?thesis unfolding ex by simp
  next
    case False
    then have "err = Some UnicodeEncodeError" "rows' = rows"
      using Cons.prems e by (simp_all add: writerow_def)
    with False show ?thesis unfolding ex by simp
  qed
qed










lemma outcome_of_Inl:
  "outcome_of parser response url = Inl e \<Longrightarrow>
   response = Inl e \<or>
   (\<exists>content. response = Inr content \<and>
      (parser content = Inl e \<or>
       (\<exists>soup. parser content = Inr soup \<and> extract_fields soup url = Inl e)))"
  by (auto simp: outcome_of_def split: sum.splits)

lemma original_price_present:
  "original_price_raw soup = Inr raw \<Longrightarrow>
   soup (lit ''span'') (lit ''a-size-small aok-offscreen'') = Some el \<Longrightarrow>
   \<exists>s bs. el_string el = Some s \<and> encode (strip s) = Inr bs \<and> raw = PBytes bs"
  by (auto simp: original_price_raw_def split: option.splits sum.splits)

lemma outcome_of_Inr:
  assumes "outcome_of parser response url = Inr (name, asin, price, disc, rating)"
  shows "\<exists>content soup u segment.
     response = Inr content \<and> parser content = Inr soup \<and> url = Some u \<and>
     index (py_split (of_char CHR ''/'') u) 3 = Inr segment \<and>
     name = replace (of_char CHR ''-'') (lit '' '') segment \<and>
     asin = re_search_asin u \<and>
     (soup (lit ''span'') (lit ''a-size-small aok-offscreen'') = None \<longrightarrow>
        price = NotAvailable) \<and>
     (\<forall>el. soup (lit ''span'') (lit ''a-size-small aok-offscreen'') = Some el \<longrightarrow>
        (\<exists>s bs. el_string el = Some s \<and> encode (strip s) = Inr bs \<and>
                convert_to_price (PBytes bs) = Inr price)) \<and>
     (soup (lit ''span'') (lit ''a-price-whole'') = None \<longrightarrow> disc = NotAvailable) \<and>
     (\<forall>el. soup (lit ''span'') (lit ''a-price-whole'') = Some el \<longrightarrow>
        disc = strip (el_text el)) \<and>
     (soup (lit ''span'') (lit ''a-icon-alt'') = None \<longrightarrow> rating = NotAvailable) \<and>
     (\<forall>el. soup (lit ''span'') (lit ''a-icon-alt'') = Some el \<longrightarrow>
        rating = strip (el_text el))"
proof -
  from assms obtain content soup where cs: "response = Inr content" "parser content = Inr soup"
    and ef: "extract_fields soup url = Inr (name, asin, price, disc, rating)"
    by (auto simp: outcome_of_def split: sum.splits)
  from extract_fields_Inr [OF ef] obtain u segment raw where f:
    "url = Some u" "asin = re_search_asin u"
    "index (py_split (of_char CHR ''/'') u) 3 = Inr segment"
    "name = replace (of_char CHR ''-'') (lit '' '') segment"
    "original_price_raw soup = Inr raw" "convert_to_price raw = Inr price"
    "disc = text_or_placeholder soup (lit ''a-price-whole'')"
    "rating = text_or_placeholder soup (lit ''a-icon-alt'')"
    by blast
  have p0: "price = NotAvailable"
    if "soup (lit ''span'') (lit ''a-size-small aok-offscreen'') = None"
  proof -
    have "raw = PStr (lit ''Not Available'')"
      using original_price_absent [of soup] that f(5) by simp
    then have "convert_to_price raw = Inr NotAvailable"
      by (simp add: convert_to_price_other)
    with f(6) show ?thesis by simp
  qed
  have p1: "\<exists>s bs. el_string el = Some s \<and> encode (strip s) = Inr bs \<and>
                convert_to_price (PBytes bs) = Inr price"
    if "soup (lit ''span'') (lit ''a-size-small aok-offscreen'') = Some el" for el
    using original_price_present [of soup raw el] f(5) that f(6) by blast
  have t0: "text_or_placeholder soup cls = NotAvailable" if "soup (lit ''span'') cls = None" for cls
    using that by (simp add: text_or_placeholder_def NotAvailable_def)
  have t1: "text_or_placeholder soup cls = strip (el_text el)"
    if "soup (lit ''span'') cls = Some el" for cls el
    using that by (simp add: text_or_placeholder_def)
  show ?thesis
    apply (rule exI [of _ content], rule exI [of _ soup], rule exI [of _ u],
        rule exI [of _ segment])
    apply (intro conjI impI allI)
    apply (rule cs f p0 p1 | simp only: f(7,8) t0 t1 | assumption)+
    done
qed

lemma batch_loop_prefix:
  assumes "batch_loop env urls (rows, w) = (err, rows', w')"
  shows "\<exists>k\<le>length urls. rows' = rows @ take k (expected_rows env urls (remote w))"
proof -
  let ?ex = "expected_rows env urls (remote w)"
  let ?new = "takeWhile (encodable_row (output_encoding env)) ?ex"
  have "rows' = rows @ ?new" using batch_loop_char [OF assms] by blast
  moreover have "?new = take (length ?new) ?ex" by (rule takeWhile_eq_take)
  moreover have "length ?new \<le> length urls"
    using length_takeWhile_le [of _ ?ex] by (simp add: expected_rows_length)
  ultimately show ?thesis by metis
qed

text \<open>
  C4 (amended).  The rows handed to the writer are rows of \<open>expected_rows\<close>: the row
  of each URL and of the response to its request, six cells starting with the URL.  When
  the request, the parser or the extraction raises, the other five cells are \<open>None\<close>.
  When they succeed, the name is the fourth segment of the URL with hyphens replaced by
  spaces, the identifier is the match of the pattern or \<open>None\<close>, the original price is
  the sentinel when the hidden price element is missing and the normalized text of the
  element otherwise, and the discounted price and the rating are the sentinel when their
  element is missing and the trimmed text of the element otherwise.
\<close>

theorem batch_loop_rows_shape:
  "(batch_loop env urls (rows, w) = (err, rows', w') \<longrightarrow>
      (\<exists>k\<le>length urls. rows' = rows @ take k (expected_rows env urls (remote w)))) \<and>
   (i < length urls \<longrightarrow>
      expected_rows env urls n ! i =
        row_of (urls ! i)
          (outcome_of (html_parser env) (responses env urls n ! i) (urls ! i))) \<and>
   (outcome_of parser response url = Inl e \<longrightarrow>
      row_of url (outcome_of parser response url) = [url, None, None, None, None, None] \<and>
      (response = Inl e \<or>
       (\<exists>content. response = Inr content \<and>
          (parser content = Inl e \<or>
           (\<exists>soup. parser content = Inr soup \<and> extract_fields soup url = Inl e))))) \<and>
   (outcome_of parser response url = Inr (name, asin, price, disc, rating) \<longrightarrow>
      row_of url (outcome_of parser response url) =
        [url, Some name, asin, Some price, Some disc, Some rating] \<and>
      (\<exists>content soup u segment.
         response = Inr content \<and> parser content = Inr soup \<and> url = Some u \<and>
         index (py_split (of_char CHR ''/'') u) 3 = Inr segment \<and>
         name = replace (of_char CHR ''-'') (lit '' '') segment \<and>
         asin = re_search_asin u \<and>
         (soup (lit ''span'') (lit ''a-size-small aok-offscreen'') = None \<longrightarrow>
            price = NotAvailable) \<and>
         (\<forall>el. soup (lit ''span'') (lit ''a-size-small aok-offscreen'') = Some el \<longrightarrow>
            (\<exists>s bs. el_string el = Some s \<and> encode (strip s) = Inr bs \<and>
                    convert_to_price (PBytes bs) = Inr price)) \<and>
         (soup (lit ''span'') (lit ''a-price-whole'') = None \<longrightarrow> disc = NotAvailable) \<and>
         (\<forall>el. soup (lit ''span'') (lit ''a-price-whole'') = Some el \<longrightarrow>
            disc = strip (el_text el)) \<and>
         (soup (lit ''span'') (lit ''a-icon-alt'') = None \<longrightarrow> rating = NotAvailable) \<and>
         (\<forall>el. soup (lit ''span'') (lit ''a-icon-alt'') = Some el \<longrightarrow>
            rating = strip (el_text el))))"
proof (intro conjI impI)
  assume "batch_loop env urls (rows, w) = (err, rows', w')"
  then show "\<exists>k\<le>length urls. rows' = rows @ take k (expected_rows env urls (remote w))"
    by (rule batch_loop_prefix)
next
  assume "i < length urls"
  then show "expected_rows env urls n ! i =
        row_of (urls ! i)
          (outcome_of (html_parser env) (responses env urls n ! i) (urls ! i))"
    by (rule expected_rows_nth)
next
  assume a: "outcome_of parser response url = Inl e"
  then show "row_of url (outcome_of parser response url) = [url, None, None, None, None, None]"
    by simp
  from a show "response = Inl e \<or>
       (\<exists>content. response = Inr content \<and>
          (parser content = Inl e \<or>
           (\<exists>soup. parser content = Inr soup \<and> extract_fields soup url = Inl e)))"
    by (rule outcome_of_Inl)
next
  assume a: "outcome_of parser response url = Inr (name, asin, price, disc, rating)"
  then show "row_of url (outcome_of parser response url) =
        [url, Some name, asin, Some price, Some disc, Some rating]"
    by simp
  from a show "\<exists>content soup u segment.
         response = Inr content \<and> parser content = Inr soup \<and> url = Some u \<and>
         index (py_split (of_char CHR ''/'') u) 3 = Inr segment \<and>
         name = replace (of_char CHR ''-'') (lit '' '') segment \<and>
         asin = re_search_asin u \<and>
         (soup (lit ''span'') (lit ''a-size-small aok-offscreen'') = None \<longrightarrow>
            price = NotAvailable) \<and>
         (\<forall>el. soup (lit ''span'') (lit ''a-size-small aok-offscreen'') = Some el \<longrightarrow>
            (\<exists>s bs. el_string el = Some s \<and> encode (strip s) = Inr bs \<and>
                    convert_to_price (PBytes bs) = Inr price)) \<and>
         (soup (lit ''span'') (lit ''a-price-whole'') = None \<longrightarrow> disc = NotAvailable) \<and>
         (\<forall>el. soup (lit ''span'') (lit ''a-price-whole'') = Some el \<longrightarrow>
            disc = strip (el_text el)) \<and>
         (soup (lit ''span'') (lit ''a-icon-alt'') = None \<longrightarrow> rating = NotAvailable) \<and>
         (\<forall>el. soup (lit ''span'') (lit ''a-icon-alt'') = Some el \<longrightarrow>
            rating = strip (el_text el))"
    by (rule outcome_of_Inr)
qed

text \<open>
  C4 for a page that shows a discounted price and no other element, and for a URL with too
  few segments.
\<close>

theorem batch_loop_rows_shape_witness:
  "outcome_of (html_parser env_rupee) (Inr []) (Some (lit ''https://a.b/c-d/dp/B01'')) =
     Inr (lit ''c d'', Some (lit ''B01''), NotAvailable, [8377, 49, 50], NotAvailable) \<and>
   row_of (Some (lit ''https://a.b/c-d/dp/B01''))
     (outcome_of (html_parser env_rupee) (Inr []) (Some (lit ''https://a.b/c-d/dp/B01''))) =
     [Some (lit ''https://a.b/c-d/dp/B01''), Some (lit ''c d''), Some (lit ''B01''),
      Some NotAvailable, Some [8377, 49, 50], Some NotAvailable] \<and>
   outcome_of (html_parser env_ok) (Inr []) (Some (lit ''x'')) = Inl IndexError \<and>
   row_of (Some (lit ''x'')) (outcome_of (html_parser env_ok) (Inr []) (Some (lit ''x''))) =
     [Some (lit ''x''), None, None, None, None, None] \<and>
   (\<exists>k\<le>length [Some (lit ''https://a.b/c-d/dp/B01''), Some (lit ''x'')].
      fst (snd (batch_loop env_ok [Some (lit ''https://a.b/c-d/dp/B01''), Some (lit ''x'')]
                  ([], idle))) =
      [] @ take k (expected_rows env_ok [Some (lit ''https://a.b/c-d/dp/B01''), Some (lit ''x'')]
                     (remote idle))) \<and>
   expected_rows env_ok [Some (lit ''https://a.b/c-d/dp/B01''), Some (lit ''x'')] (remote idle) =
     [[Some (lit ''https://a.b/c-d/dp/B01''), Some (lit ''c d''), Some (lit ''B01''),
       Some NotAvailable, Some NotAvailable, Some NotAvailable],
      [Some (lit ''x''), None, None, None, None, None]]"
proof -
  let ?u = "Some (lit ''https://a.b/c-d/dp/B01'')"
  let ?x = "Some (lit ''x'')"
  let ?b = "batch_loop env_ok [?u, ?x] ([], idle)"
  have s: "outcome_of (html_parser env_rupee) (Inr []) ?u =
     Inr (lit ''c d'', Some (lit ''B01''), NotAvailable, [8377, 49, 50], NotAvailable)"
    by (simp add: outcome_of_def env_rupee_def rupee_page_def extract_fields_def index_def
        replace_def original_price_raw_def convert_to_price_def text_or_placeholder_def
        strip_def isspace_def NotAvailable_def is_asin_char_def)
  have f: "outcome_of (html_parser env_ok) (Inr []) ?x = Inl IndexError"
    by (simp add: outcome_of_def env_ok_def extract_fields_def index_def)
  have b: "?b = (fst ?b, fst (snd ?b), snd (snd ?b))" by (simp only: prod.collapse)
  note t1 = batch_loop_rows_shape [of env_ok "[?u, ?x]" "[]" idle "fst ?b" "fst (snd ?b)"
      "snd (snd ?b)" 0 0 "html_parser env_rupee" "Inr []" ?u IndexError "lit ''c d''"
      "Some (lit ''B01'')" NotAvailable "[8377, 49, 50]" NotAvailable]
  note t2 = batch_loop_rows_shape [of env_ok "[?u, ?x]" "[]" idle "fst ?b" "fst (snd ?b)"
      "snd (snd ?b)" 0 0 "html_parser env_ok" "Inr []" ?x IndexError "lit ''c d''"
      "Some (lit ''B01'')" NotAvailable "[8377, 49, 50]" NotAvailable]
  have 1: "row_of ?u (outcome_of (html_parser env_rupee) (Inr []) ?u) =
     [?u, Some (lit ''c d''), Some (lit ''B01''), Some NotAvailable, Some [8377, 49, 50],
      Some NotAvailable]"
    by (rule t1 [THEN conjunct2, THEN conjunct2, THEN conjunct2, THEN mp, OF s, THEN conjunct1])
  have 2: "row_of ?x (outcome_of (html_parser env_ok) (Inr []) ?x) =
     [?x, None, None, None, None, None]"
    by (rule t2 [THEN conjunct2, THEN conjunct2, THEN conjunct1, THEN mp, OF f, THEN conjunct1])
  have 3: "\<exists>k\<le>length [?u, ?x]. fst (snd ?b) = [] @ take k (expected_rows env_ok [?u, ?x] (remote idle))"
    by (rule t1 [THEN conjunct1, THEN mp, OF b])
  have 4: "expected_rows env_ok [?u, ?x] (remote idle) =
     [[?u, Some (lit ''c d''), Some (lit ''B01''),
       Some NotAvailable, Some NotAvailable, Some NotAvailable],
      [?x, None, None, None, None, None]]"
    by (simp add: expected_rows_def outcome_of_def env_ok_def idle_def extract_fields_def
        index_def replace_def original_price_raw_def convert_to_price_def
        text_or_placeholder_def NotAvailable_def is_asin_char_def)
  show ?thesis by (intro conjI) (rule s, rule 1, rule f, rule 2, rule 3, rule 4)
qed

text \<open>
  C4 as stated fails: when the request raises, the row holds the URL and five \<open>None\<close>s,
  not the sentinel.
\<close>

theorem failed_fetch_row:
  "fst (snd (batch_loop env_down
               [Some (lit ''https://site.example/wireless-mouse/dp/B0ABCXYZ12'')] ([], idle))) =
     [[Some (lit ''https://site.example/wireless-mouse/dp/B0ABCXYZ12''),
       None, None, None, None, None]]"
  by (simp add: extract_product_details_and_info_def env_down_def idle_def writerow_def
      encodable_row_def csv_cell_def)

section \<open>Properties of get_unique_output_file\<close>

lemma unique_loop_found:
  assumes "path_exists files name"
    and "count \<le> k"
    and "\<And>j. count \<le> j \<Longrightarrow> j < k \<Longrightarrow> path_exists files (candidate base ext j)"
    and "\<not> path_exists files (candidate base ext k)"
  shows "unique_loop files base ext name count = Some (candidate base ext k)"
  using assms
proof (induction "k - count" arbitrary: name count)
  case 0
  then have "count = k" by simp
  with 0 show ?case
    by (simp add: unique_loop.simps [of files base ext name]
        unique_loop.simps [of files base ext "candidate base ext k"])
next
  case (Suc d)
  then have lt: "count < k" by simp
  have ex: "path_exists files (candidate base ext count)"
    using Suc.prems(3) [of count] lt by simp
  have "unique_loop files base ext (candidate base ext count) (count + 1) =
          Some (candidate base ext k)"
  proof (rule Suc.hyps(1))
    show "d = k - (count + 1)" using Suc.hyps(2) by simp
    show "path_exists files (candidate base ext count)" by (rule ex)
    show "count + 1 \<le> k" using lt by simp
    show "\<And>j. count + 1 \<le> j \<Longrightarrow> j < k \<Longrightarrow> path_exists files (candidate base ext j)"
      using Suc.prems(3) by simp
    show "\<not> path_exists files (candidate base ext k)" by (rule Suc.prems(4))
  qed
  then show ?case
    using Suc.prems(1) by (simp add: unique_loop.simps [of files base ext name])
qed

lemma digits_value_str_nat: "digits_value (str_nat n) = n"
proof (induction n rule: str_nat.induct)
  case (1 n)
  show ?case
  proof (cases "n < 10")
    case True
    then show ?thesis by (simp add: str_nat.simps [of n] digits_value_def)
  next
    case False
    with 1 have "digits_value (str_nat (n div 10)) = n div 10" by simp
    with False show ?thesis
      by (simp add: str_nat.simps [of n] digits_value_def)
  qed
qed

lemma str_nat_inj: "str_nat m = str_nat n \<Longrightarrow> m = n"
  using digits_value_str_nat by metis

lemma candidate_inj: "candidate base ext m = candidate base ext n \<Longrightarrow> m = n"
  by (simp add: candidate_def str_nat_inj)

lemma free_candidate:
  assumes "finite (dom files)"
  shows "\<exists>k\<ge>1. \<not> path_exists files (candidate base ext k)"
proof (rule ccontr)
  assume "\<not> ?thesis"
  then have "range (\<lambda>k. candidate base ext (Suc k)) \<subseteq> dom files"
    by (auto simp: path_exists_def)
  then have "finite (range (\<lambda>k. candidate base ext (Suc k)))"
    using assms by (rule finite_subset)
  moreover have "inj (\<lambda>k. candidate base ext (Suc k))"
    by (rule injI) (auto dest: candidate_inj)
  ultimately have "finite (UNIV :: nat set)" by (rule finite_imageD)
  then show False by simp
qed

lemma unique_loop_terminates:
  assumes "finite (dom files)"
  shows "\<exists>r. unique_loop files base ext name 1 = Some r \<and> \<not> path_exists files r"
proof (cases "path_exists files name")
  case False
  then show ?thesis by (simp add: unique_loop.simps [of files base ext name])
next
  case True
  let ?P = "\<lambda>k. 1 \<le> k \<and> \<not> path_exists files (candidate base ext k)"
  define K where "K = (LEAST k. ?P k)"
  have "\<exists>k. ?P k" using free_candidate [OF assms] by blast
  then have PK: "?P K" unfolding K_def by (rule LeastI_ex)
  have below: "\<And>j. 1 \<le> j \<Longrightarrow> j < K \<Longrightarrow> path_exists files (candidate base ext j)"
    using not_less_Least [of _ ?P] unfolding K_def by blast
  have "unique_loop files base ext name 1 = Some (candidate base ext K)"
    using True PK below by (intro unique_loop_found) simp_all
  with PK show ?thesis by simp
qed

lemma splitext_output: "splitext (lit ''output.csv'') = (lit ''output'', lit ''.csv'')"
  by (simp add: splitext_def rfind_def upto.simps)

lemma candidate_output:
  "candidate (lit ''output'') (lit ''.csv'') 1 = lit ''output_1.csv''"
  "candidate (lit ''output'') (lit ''.csv'') 2 = lit ''output_2.csv''"
  by (simp_all add: candidate_def str_nat.simps)

text \<open>
  C7.  A requested name that does not exist is returned unchanged.  When it exists, the
  result is the first of the names with the suffixes \<open>_1\<close>, \<open>_2\<close>, ... before the
  extension that does not exist.  On a file system with finitely many paths the search
  ends with a name that does not exist.  When \<open>output.csv\<close> and \<open>output_1.csv\<close> exist
  and \<open>output_2.csv\<close> does not, the result is \<open>output_2.csv\<close>.
\<close>

theorem get_unique_output_file_spec:
  "(\<not> path_exists files name \<longrightarrow> get_unique_output_file files name = Some name) \<and>
   (path_exists files name \<and> 1 \<le> k \<and>
    (\<forall>j. 1 \<le> j \<and> j < k \<longrightarrow>
         path_exists files (candidate (fst (splitext name)) (snd (splitext name)) j)) \<and>
    \<not> path_exists files (candidate (fst (splitext name)) (snd (splitext name)) k) \<longrightarrow>
      get_unique_output_file files name =
        Some (candidate (fst (splitext name)) (snd (splitext name)) k)) \<and>
   (finite (dom files) \<longrightarrow>
      (\<exists>r. get_unique_output_file files name = Some r \<and> \<not> path_exists files r)) \<and>
   (path_exists files (lit ''output.csv'') \<and> path_exists files (lit ''output_1.csv'') \<and>
    \<not> path_exists files (lit ''output_2.csv'') \<longrightarrow>
      get_unique_output_file files (lit ''output.csv'') = Some (lit ''output_2.csv''))"
proof (intro conjI impI)
  assume "\<not> path_exists files name"
  then show "get_unique_output_file files name = Some name"
    by (simp add: get_unique_output_file_def case_prod_beta
        unique_loop.simps [of files _ _ name])
next
  let ?b = "fst (splitext name)" and ?e = "snd (splitext name)"
  assume a: "path_exists files name \<and> 1 \<le> k \<and>
    (\<forall>j. 1 \<le> j \<and> j < k \<longrightarrow> path_exists files (candidate ?b ?e j)) \<and>
    \<not> path_exists files (candidate ?b ?e k)"
  then have "unique_loop files ?b ?e name 1 = Some (candidate ?b ?e k)"
    by (intro unique_loop_found) simp_all
  then show "get_unique_output_file files name = Some (candidate ?b ?e k)"
    by (simp add: get_unique_output_file_def case_prod_beta)
next
  assume "finite (dom files)"
  then show "\<exists>r. get_unique_output_file files name = Some r \<and> \<not> path_exists files r"
    using unique_loop_terminates [of files "fst (splitext name)" "snd (splitext name)" name]
    by (simp add: get_unique_output_file_def case_prod_beta)
next
  assume a: "path_exists files (lit ''output.csv'') \<and> path_exists files (lit ''output_1.csv'') \<and>
    \<not> path_exists files (lit ''output_2.csv'')"
  have "unique_loop files (lit ''output'') (lit ''.csv'') (lit ''output.csv'') 1 =
          Some (candidate (lit ''output'') (lit ''.csv'') 2)"
  proof (rule unique_loop_found)
    show "path_exists files (lit ''output.csv'')" using a by blast
    show "(1::nat) \<le> 2" by simp
    show "\<not> path_exists files (candidate (lit ''output'') (lit ''.csv'') 2)"
      using a unfolding candidate_output by blast
    fix j :: nat assume "1 \<le> j" "j < 2"
    then have "j = 1" by simp
    then show "path_exists files (candidate (lit ''output'') (lit ''.csv'') j)"
      using a candidate_output(1) by simp
  qed
  then show "get_unique_output_file files (lit ''output.csv'') = Some (lit ''output_2.csv'')"
    by (simp only: get_unique_output_file_def splitext_output candidate_output Let_def
        prod.case)
qed

text \<open>C7 on a file system that holds \<open>output.csv\<close> and \<open>output_1.csv\<close>.\<close>

theorem get_unique_output_file_spec_witness:
  "path_exists two_outputs (lit ''output.csv'') \<and>
   path_exists two_outputs (lit ''output_1.csv'') \<and>
   \<not> path_exists two_outputs (lit ''output_2.csv'') \<and>
   finite (dom two_outputs) \<and>
   get_unique_output_file two_outputs (lit ''output.csv'') = Some (lit ''output_2.csv'') \<and>
   \<not> path_exists two_outputs (lit ''notes.txt'') \<and>
   get_unique_output_file two_outputs (lit ''notes.txt'') = Some (lit ''notes.txt'')"
  using get_unique_output_file_spec [of two_outputs "lit ''output.csv''" 2]
    get_unique_output_file_spec [of two_outputs "lit ''notes.txt''" 1]
  by (simp add: two_outputs_def path_exists_def)

section \<open>Properties of main\<close>

lemma fold_pairs_other:
  "k \<notin> fst ` set kvs \<Longrightarrow> fold (\<lambda>(key, v) d. d(key \<mapsto> Some v)) kvs d k = d k"
  by (induction kvs arbitrary: d) auto

lemma fold_keys_other:
  "k \<notin> set ks \<Longrightarrow> fold (\<lambda>key d. d(key \<mapsto> None)) ks d k = d k"
  by (induction ks arbitrary: d) auto

lemma dict_row_missing: "key \<notin> set fieldnames \<Longrightarrow> dict_row fieldnames row key = None"
proof -
  assume a: "key \<notin> set fieldnames"
  then have "key \<notin> set (drop (length row) fieldnames)" by (auto dest: in_set_dropD)
  moreover have "key \<notin> fst ` set (zip fieldnames row)" using a by (auto dest: set_zip_leftD)
  ultimately show ?thesis by (simp add: dict_row_def fold_keys_other fold_pairs_other)
qed

lemma collect_urls_KeyError:
  "URL_column \<notin> set fieldnames \<Longrightarrow> \<exists>row\<in>set rows. row \<noteq> [] \<Longrightarrow>
   collect_urls fieldnames rows urls = Inl (KeyError URL_column)"
proof (induction rows arbitrary: urls)
  case Nil
  then show ?case by simp
next
  case (Cons row rows)
  show ?case
  proof (cases "row = []")
    case True
    with Cons show ?thesis by simp
  next
    case False
    have "getitem (dict_row fieldnames row) URL_column = Inl (KeyError URL_column)"
      using dict_row_missing [OF Cons.prems(1)] by (simp add: getitem_def)
    with False show ?thesis by (simp)
  qed
qed

lemma read_urls_KeyError:
  "files p = Some (RegularFile (fieldnames # rows)) \<Longrightarrow> URL_column \<notin> set fieldnames \<Longrightarrow>
   \<exists>row\<in>set rows. row \<noteq> [] \<Longrightarrow>
   read_urls_from_csv files p = Inl (KeyError URL_column)"
  by (simp add: read_urls_from_csv_def open_read_def collect_urls_KeyError)

lemma py_input_fs: "py_input prompt w = (r, w') \<Longrightarrow> fs w' = fs w"
  by (auto simp: py_input_def Let_def split: list.splits)

lemma py_input_console: "py_input prompt w = (r, w') \<Longrightarrow> console w' = console w @ [Prompt prompt]"
  by (auto simp: py_input_def Let_def split: list.splits)

lemma py_input_error: "py_input prompt w = (Inl e, w') \<Longrightarrow> e = EOFError"
  by (auto simp: py_input_def Let_def split: list.splits)

lemma choose_output_fs: "choose_output w = Some (r, w') \<Longrightarrow> fs w' = fs w"
  by (auto simp: choose_output_def Let_def
      split: if_splits prod.splits sum.splits option.splits dest: py_input_fs)

lemma choose_output_returns:
  assumes "finite (dom (fs w))"
  shows "\<exists>r w' evs. choose_output w = Some (r, w') \<and> fs w' = fs w \<and>
           console w' = console w @ evs \<and> (\<forall>e. r = Inl e \<longrightarrow> e = EOFError)"
proof (cases "path_exists (fs w) default_output")
  case False
  then show ?thesis by (simp add: choose_output_def)
next
  case True
  let ?prompt = "overwrite_prompt default_output"
  obtain r w1 where p: "py_input ?prompt w = (r, w1)" by (cases "py_input ?prompt w")
  have f: "fs w1 = fs w" and c: "console w1 = console w @ [Prompt ?prompt]"
    using p by (rule py_input_fs, rule py_input_console)
  show ?thesis
  proof (cases r)
    case (Inl e)
    then have "e = EOFError" using p py_input_error by blast
    with Inl p True f c show ?thesis by (simp add: choose_output_def)
  next
    case (Inr choice)
    obtain u where u: "get_unique_output_file (fs w1) default_output = Some u"
      using unique_loop_terminates [of "fs w1"] assms f
      by (fastforce simp: get_unique_output_file_def case_prod_beta)
    with Inr p True f c show ?thesis by (simp add: choose_output_def)
  qed
qed

lemma scrape_read_error:
  "read_urls_from_csv (fs w) p = Inl e \<Longrightarrow> scrape env p out w = (Inl e, w)"
  by (simp add: scrape_def)

lemma main_no_file:
  assumes "stdin w = line # rest" "\<not> isfile (fs w) (strip_chars [34] line)"
  shows "\<exists>w' evs. main env w = Some w' \<and> fs w' = fs w \<and>
           console w' = console w @ evs @ [FileDoesNotExist (strip_chars [34] line)]"
  using assms
  by (simp add: main_def main_body_def py_input_def print_def Let_def)

lemma main_no_column:
  assumes "stdin w = line # rest"
    and "fs w (strip_chars [34] line) = Some (RegularFile (fieldnames # rows))"
    and "URL_column \<notin> set fieldnames" "\<exists>row\<in>set rows. row \<noteq> []"
    and "finite (dom (fs w))"
  shows "\<exists>w' e evs. main env w = Some w' \<and> fs w' = fs w \<and>
           console w' = console w @ evs @ [AnErrorOccurred e] \<and>
           (e = KeyError URL_column \<or> e = EOFError)"
proof -
  let ?prompt = "path_prompt"
  let ?p = "strip_chars [34] line"
  define w1 where "w1 = w\<lparr>console := console w @ [Prompt ?prompt], stdin := rest\<rparr>"
  have i: "py_input ?prompt w = (Inr line, w1)"
    using assms(1) by (simp add: py_input_def w1_def Let_def)
  have f1: "fs w1 = fs w" and c1: "console w1 = console w @ [Prompt ?prompt]"
    by (simp_all add: w1_def)
  have isf: "isfile (fs w1) ?p" using assms(2) f1 by (simp add: isfile_def)
  obtain r w2 evs where ch: "choose_output w1 = Some (r, w2)" and f2: "fs w2 = fs w1"
    and c2: "console w2 = console w1 @ evs" and er: "\<forall>e. r = Inl e \<longrightarrow> e = EOFError"
    using choose_output_returns [of w1] assms(5) f1 by auto
  show ?thesis
  proof (cases r)
    case (Inl e)
    then have "main env w = Some (print (AnErrorOccurred e) w2)"
      using i isf ch by (simp add: main_def main_body_def)
    moreover have "e = EOFError" using er Inl by simp
    ultimately show ?thesis using f1 f2 c1 c2 by (simp add: print_def)
  next
    case (Inr out)
    have "read_urls_from_csv (fs w2) ?p = Inl (KeyError URL_column)"
      using assms(2,3,4) f1 f2 by (intro read_urls_KeyError) simp_all
    then have "scrape env ?p out w2 = (Inl (KeyError URL_column), w2)"
      by (rule scrape_read_error)
    then have "main env w = Some (print (AnErrorOccurred (KeyError URL_column)) w2)"
      using i isf ch Inr by (simp add: main_def main_body_def)
    then show ?thesis using f1 f2 c1 c2 by (simp add: print_def)
  qed
qed

lemma main_read_error:
  assumes "stdin w = line # rest"
    and "read_urls_from_csv (fs w) (strip_chars [34] line) = Inl e"
    and "main env w = Some w'"
  shows "fs w' = fs w"
proof -
  let ?prompt = "path_prompt"
  let ?p = "strip_chars [34] line"
  define w1 where "w1 = w\<lparr>console := console w @ [Prompt ?prompt], stdin := rest\<rparr>"
  have i: "py_input ?prompt w = (Inr line, w1)"
    using assms(1) by (simp add: py_input_def w1_def Let_def)
  have f1: "fs w1 = fs w" by (simp add: w1_def)
  show ?thesis
  proof (cases "isfile (fs w1) ?p")
    case False
    then have "main env w = Some (print (FileDoesNotExist ?p) w1)"
      using i by (simp add: main_def main_body_def)
    with assms(3) f1 show ?thesis by (auto simp: print_def)
  next
    case True
    show ?thesis
    proof (cases "choose_output w1")
      case None
      then have "main env w = None"
        using i True by (simp add: main_def main_body_def)
      with assms(3) show ?thesis by simp
    next
      case (Some rw)
      obtain r w2 where rw: "rw = (r, w2)" by (cases rw)
      have f2: "fs w2 = fs w1" using Some rw choose_output_fs by blast
      show ?thesis
      proof (cases r)
        case (Inl x)
        then have "main env w = Some (print (AnErrorOccurred x) w2)"
          using i True Some rw by (simp add: main_def main_body_def)
        with assms(3) f1 f2 show ?thesis by (auto simp: print_def)
      next
        case (Inr out)
        have "scrape env ?p out w2 = (Inl e, w2)"
          using assms(2) f1 f2 by (intro scrape_read_error) simp
        then have "main env w = Some (print (AnErrorOccurred e) w2)"
          using i True Some rw Inr by (simp add: main_def main_body_def)
        with assms(3) f1 f2 show ?thesis by (auto simp: print_def)
      qed
    qed
  qed
qed

text \<open>
  C8 (amended).  When the path typed by the operator is not a regular file, the run
  reports that the file does not exist and leaves the file system as it was.  When the
  header of the input file lacks the \<open>URL\<close> column and the file has at least one
  non-empty data row, the run reports an error and leaves the file system as it was.
  Whenever reading the URLs fails, a run that ends leaves the file system as it was: the
  output file is opened only after all URLs have been read.
\<close>

theorem main_input_file_errors:
  "(stdin w = line # rest \<and> \<not> isfile (fs w) (strip_chars [34] line) \<longrightarrow>
      (\<exists>w' evs. main env w = Some w' \<and> fs w' = fs w \<and>
         console w' = console w @ evs @ [FileDoesNotExist (strip_chars [34] line)])) \<and>
   (stdin w = line # rest \<and>
    fs w (strip_chars [34] line) = Some (RegularFile (fieldnames # rows)) \<and>
    URL_column \<notin> set fieldnames \<and> (\<exists>row\<in>set rows. row \<noteq> []) \<and> finite (dom (fs w)) \<longrightarrow>
      (\<exists>w' e evs. main env w = Some w' \<and> fs w' = fs w \<and>
         console w' = console w @ evs @ [AnErrorOccurred e] \<and>
         (e = KeyError URL_column \<or> e = EOFError))) \<and>
   (stdin w = line # rest \<and> read_urls_from_csv (fs w) (strip_chars [34] line) = Inl e \<and>
    main env w = Some w' \<longrightarrow> fs w' = fs w)"
  using main_no_file [of w line rest env] main_no_column [of w line rest fieldnames rows env]
    main_read_error [of w line rest e env w']
  by blast

text \<open>C8 for a missing input file and for an input file whose header is \<open>Link\<close>.\<close>

theorem main_input_file_errors_witness:
  "stdin no_input_file = [lit ''in.csv''] \<and>
   \<not> isfile (fs no_input_file) (strip_chars [34] (lit ''in.csv'')) \<and>
   (\<exists>w' evs. main env_ok no_input_file = Some w' \<and> fs w' = fs no_input_file \<and>
      console w' = console no_input_file @ evs @ [FileDoesNotExist (lit ''in.csv'')]) \<and>
   stdin no_url_column = [lit ''in.csv''] \<and>
   fs no_url_column (strip_chars [34] (lit ''in.csv'')) =
     Some (RegularFile [[lit ''Link''], [lit ''https://a.b/c/dp/B01'']]) \<and>
   URL_column \<notin> set [lit ''Link''] \<and> finite (dom (fs no_url_column)) \<and>
   read_urls_from_csv (fs no_url_column) (strip_chars [34] (lit ''in.csv'')) =
     Inl (KeyError URL_column) \<and>
   (\<exists>w'. main env_ok no_url_column = Some w' \<and> fs w' = fs no_url_column \<and>
      console w' = [Prompt path_prompt, AnErrorOccurred (KeyError URL_column)])"
proof -
  have s: "strip_chars [34] (lit ''in.csv'') = lit ''in.csv''"
    by (simp add: strip_chars_def)
  have a: "stdin no_input_file = [lit ''in.csv'']"
    "\<not> isfile (fs no_input_file) (strip_chars [34] (lit ''in.csv''))"
    by (simp_all add: no_input_file_def isfile_def strip_chars_def)
  have b: "stdin no_url_column = [lit ''in.csv'']"
    "fs no_url_column (strip_chars [34] (lit ''in.csv'')) =
       Some (RegularFile [[lit ''Link''], [lit ''https://a.b/c/dp/B01'']])"
    "URL_column \<notin> set [lit ''Link'']" "\<exists>row\<in>set [lit ''https://a.b/c/dp/B01'']. row \<noteq> []"
    "finite (dom (fs no_url_column))"
    by (simp_all add: no_url_column_def strip_chars_def URL_column_def)
  have r: "read_urls_from_csv (fs no_url_column) (strip_chars [34] (lit ''in.csv'')) =
     Inl (KeyError URL_column)"
    by (simp add: strip_chars_def no_url_column_def read_urls_from_csv_def open_read_def
        getitem_def dict_row_def URL_column_def)
  have m: "map_option console (main env_ok no_url_column) =
     Some [Prompt path_prompt, AnErrorOccurred (KeyError URL_column)]"
    by (simp add: strip_chars_def no_url_column_def main_def main_body_def py_input_def isfile_def
        choose_output_def path_exists_def default_output_def scrape_def
        read_urls_from_csv_def open_read_def getitem_def dict_row_def URL_column_def print_def)
  note t = main_input_file_errors [of no_input_file "lit ''in.csv''" "[]" env_ok]
    main_input_file_errors [of no_url_column "lit ''in.csv''" "[]" env_ok "[lit ''Link'']"
      "[[lit ''https://a.b/c/dp/B01'']]" "KeyError URL_column"
      "the (main env_ok no_url_column)"]
  from t(1) a have 1: "\<exists>w' evs. main env_ok no_input_file = Some w' \<and> fs w' = fs no_input_file \<and>
      console w' = console no_input_file @ evs @ [FileDoesNotExist (lit ''in.csv'')]"
    unfolding s by blast
  from t(2) b have "\<exists>w' e evs. main env_ok no_url_column = Some w' \<and> fs w' = fs no_url_column \<and>
         console w' = console no_url_column @ evs @ [AnErrorOccurred e] \<and>
         (e = KeyError URL_column \<or> e = EOFError)"
    by simp
  then obtain w' where "main env_ok no_url_column = Some w'" "fs w' = fs no_url_column"
    by blast
  with m have 2: "\<exists>w'. main env_ok no_url_column = Some w' \<and> fs w' = fs no_url_column \<and>
      console w' = [Prompt path_prompt, AnErrorOccurred (KeyError URL_column)]"
    by auto
  from a b r 1 2 show ?thesis by blast
qed

text \<open>
  C8 as stated fails: an input file that holds nothing but the header \<open>Link\<close> lacks
  the \<open>URL\<close> column, yet the run reports no error and writes an output file that holds
  the header row.
\<close>

theorem main_header_only_input:
  "URL_column \<notin> set [lit ''Link''] \<and>
   fs header_only (lit ''in.csv'') = Some (RegularFile [[lit ''Link'']]) \<and>
   fs header_only (lit ''output_details.csv'') = None \<and>
   map_option (\<lambda>w'. (fs w' (lit ''output_details.csv''), console w')) (main env_ok header_only) =
     Some (Some (RegularFile [[lit ''URL'', lit ''Product Name'', lit ''ASIN'',
                               lit ''Original Price'', lit ''Discounted Price'',
                               lit ''Product Rating'']]),
           [Prompt path_prompt, ScrapingCompleted (lit ''output_details.csv'')])"
  by (simp add: header_only_def env_ok_def main_def main_body_def py_input_def strip_chars_def
      isfile_def choose_output_def path_exists_def scrape_def read_urls_from_csv_def
      open_read_def open_write_def header_row_def csv_cell_def print_def URL_column_def
      default_output_def writerow_def encodable_row_def)

end
